theory Spec2Isabelle
  imports Main "HOL-Library.Sublist"
begin

section \<open>Data model\<close>

text \<open>
  The typedefs \<open>GlossaryTerm\<close> and \<open>GlossaryData\<close> of glossary.js. The fields \<open>id\<close>,
  \<open>term\<close> and \<open>definition\<close> carry a prime, their plain names being taken in Isabelle.
  \<open>fullForm\<close> is \<open>string|null\<close>: \<open>None\<close> is JavaScript's \<open>null\<close>.
\<close>

record GlossaryTerm =
  id' :: string
  term' :: string
  fullForm :: "string option"
  definition' :: string
  category :: string
  relatedTerms :: "string list"
  examples :: "string list"

record GlossaryData =
  terms :: "GlossaryTerm list"
  categories :: "string list"

text \<open>Exceptions of the JavaScript runtime that the class can meet.\<close>

datatype js_error = TypeError | SyntaxError | QuotaExceededError

text \<open>
  A call either returns or throws; a thrown exception leaves the object in the state it had
  reached, so both outcomes carry the state.
\<close>

datatype 'a completion = Returns 'a | Throws js_error 'a

fun state_of :: "'a completion \<Rightarrow> 'a" where
  "state_of (Returns s) = s"
| "state_of (Throws e s) = s"

fun returns :: "'a completion \<Rightarrow> bool" where
  "returns (Returns s) = True"
| "returns (Throws e s) = False"

fun thrown :: "'a completion \<Rightarrow> js_error option" where
  "thrown (Returns s) = None"
| "thrown (Throws e s) = Some e"

fun and_then :: "'a completion \<Rightarrow> ('a \<Rightarrow> 'a completion) \<Rightarrow> 'a completion" where
  "and_then (Returns s) f = f s"
| "and_then (Throws e s) f = Throws e s"

text \<open>
  What \<open>Array.prototype.find\<close> and the callback of \<open>renderBreadcrumb\<close> hand back: an object,
  \<open>undefined\<close> (nothing found) or \<open>null\<close>.
\<close>

datatype 'a js_ref = Null | Undefined | Object 'a

text \<open>
  The elements that \<open>cacheElements\<close> looks up and that decide control flow below:
  \<open>True\<close> when \<open>document.getElementById\<close> found the element, \<open>False\<close> when the reference
  is \<open>null\<close>.
\<close>

record elements =
  breadcrumbNav :: bool
  breadcrumbItems :: bool

text \<open>One rendered breadcrumb entry: the current (last) term, or a link back to a term.\<close>

datatype crumb = Current string | Link string string

text \<open>
  The instance fields of class \<open>TechGlossary\<close>, together with the part of the page it acts
  on: the session storage (a map from keys to stored text), the console (the warnings
  logged so far) and the breadcrumb bar (hidden or not, and its rendered entries).
\<close>

record TechGlossary =
  data :: "GlossaryData option"
  filteredTerms :: "GlossaryTerm list"
  currentCategory :: string
  searchQuery :: string
  navigationHistory :: "string list"
  elements :: elements
  sessionStorage :: "string \<rightharpoonup> string"
  console :: "string list"
  breadcrumbHidden :: bool
  breadcrumbHtml :: "crumb list"

text \<open>
  The platform functions the class calls and does not define:
  \<open>String.prototype.toLowerCase\<close>; \<open>JSON.stringify\<close> and \<open>JSON.parse\<close> on a trail of term
  IDs (\<open>JSON.parse\<close> throws on text it cannot read); and whether
  \<open>sessionStorage.setItem\<close> rejects a value (quota exceeded). The class is modelled over
  any such platform; nothing is assumed of these functions but what a statement says.
\<close>

record platform =
  toLowerCase :: "string \<Rightarrow> string"
  JSON_stringify :: "string list \<Rightarrow> string"
  JSON_parse :: "string \<Rightarrow> js_error + string list"
  quotaExceeded :: "string \<Rightarrow> bool"

section \<open>JavaScript built-ins used by the class\<close>

text \<open>\<open>s.includes(q)\<close>: \<open>q\<close> occurs in \<open>s\<close> as a contiguous run of characters.\<close>

definition includes' :: "string \<Rightarrow> string \<Rightarrow> bool" where
  "includes' s q = sublist q s"

text \<open>A string in a condition: the empty string is falsy, every other string truthy.\<close>

definition truthy :: "string \<Rightarrow> bool" where
  "truthy s = (s \<noteq> [])"

text \<open>\<open>xs.indexOf(x)\<close>: the first position of \<open>x\<close>, or \<open>-1\<close>.\<close>

fun indexOf :: "'a list \<Rightarrow> 'a \<Rightarrow> int" where
  "indexOf [] x = -1"
| "indexOf (y # ys) x =
     (if y = x then 0 else (let i = indexOf ys x in if i = -1 then -1 else i + 1))"

text \<open>\<open>xs.slice(0, n)\<close> for \<open>n \<ge> 0\<close>, the only way the class calls it.\<close>

definition slice0 :: "'a list \<Rightarrow> int \<Rightarrow> 'a list" where
  "slice0 xs n = take (nat n) xs"

section \<open>Filtering\<close>

text \<open>The callback of the search filter (glossary.js, lines 321 to 325).\<close>

definition matchesQuery :: "platform \<Rightarrow> string \<Rightarrow> GlossaryTerm \<Rightarrow> bool" where
  "matchesQuery P q t =
     (includes' (toLowerCase P (term' t)) q \<or>
      includes' (toLowerCase P (definition' t)) q \<or>
      (case fullForm t of
         None \<Rightarrow> False
       | Some f \<Rightarrow> truthy f \<and> includes' (toLowerCase P f) q))"

definition filterTerms :: "platform \<Rightarrow> TechGlossary \<Rightarrow> GlossaryTerm list" where
  "filterTerms P st =
     (case data st of
        None \<Rightarrow> []
      | Some d \<Rightarrow>
          (let filtered = terms d;
               filtered = (if currentCategory st \<noteq> ''all''
                           then filter (\<lambda>t. category t = currentCategory st) filtered
                           else filtered);
               filtered = (if truthy (searchQuery st)
                           then filter (matchesQuery P (searchQuery st)) filtered
                           else filtered)
           in filtered))"

text \<open>\<open>filterAndRender\<close>: the view is recomputed; the cards it draws are not modelled.\<close>

definition filterAndRender :: "platform \<Rightarrow> TechGlossary \<Rightarrow> TechGlossary" where
  "filterAndRender P st = st\<lparr>filteredTerms := filterTerms P st\<rparr>"

text \<open>The \<open>input\<close> listener of the search box (\<open>attachEventListeners\<close>).\<close>

definition onSearchInput :: "platform \<Rightarrow> string \<Rightarrow> TechGlossary \<Rightarrow> TechGlossary" where
  "onSearchInput P v st = filterAndRender P (st\<lparr>searchQuery := toLowerCase P v\<rparr>)"

text \<open>The \<open>click\<close> listener of the category buttons (\<open>renderCategoryFilters\<close>).\<close>

definition onCategoryClick :: "platform \<Rightarrow> string \<Rightarrow> TechGlossary \<Rightarrow> TechGlossary" where
  "onCategoryClick P c st = filterAndRender P (st\<lparr>currentCategory := c\<rparr>)"

text \<open>\<open>findTermIdByName\<close>: the ID of the first term whose name equals \<open>termName\<close> up to case.\<close>

definition findTermIdByName :: "platform \<Rightarrow> TechGlossary \<Rightarrow> string \<Rightarrow> string option" where
  "findTermIdByName P st termName =
     (case data st of
        None \<Rightarrow> None
      | Some d \<Rightarrow>
          (case find (\<lambda>t. toLowerCase P (term' t) = toLowerCase P termName) (terms d) of
             None \<Rightarrow> None
           | Some t \<Rightarrow> Some (id' t)))"

section \<open>Navigation history\<close>

definition storageKey :: string where
  "storageKey = ''glossary-navigation-history''"

text \<open>
  \<open>initializeHistory\<close>: \<open>getItem\<close> gives \<open>null\<close> for a missing key; \<open>null\<close> and the empty
  string are falsy and leave the trail alone. Text that \<open>JSON.parse\<close> rejects is caught,
  logged, and the trail is emptied.
\<close>

definition initializeHistory :: "platform \<Rightarrow> TechGlossary \<Rightarrow> TechGlossary" where
  "initializeHistory P st =
     (case sessionStorage st storageKey of
        None \<Rightarrow> st
      | Some stored \<Rightarrow>
          if truthy stored then
            (case JSON_parse P stored of
               Inr h \<Rightarrow> st\<lparr>navigationHistory := h\<rparr>
             | Inl e \<Rightarrow> st\<lparr>navigationHistory := [],
                          console := console st @ [''Failed to load navigation history:'']\<rparr>)
          else st)"

text \<open>\<open>saveHistory\<close>: a rejected write is caught and logged; the stored text stays.\<close>

definition saveHistory :: "platform \<Rightarrow> TechGlossary \<Rightarrow> TechGlossary" where
  "saveHistory P st =
     (let v = JSON_stringify P (navigationHistory st) in
      if quotaExceeded P v
      then st\<lparr>console := console st @ [''Failed to save navigation history:'']\<rparr>
      else st\<lparr>sessionStorage := (sessionStorage st)(storageKey \<mapsto> v)\<rparr>)"

text \<open>
  The list \<open>breadcrumbTerms\<close> of \<open>renderBreadcrumb\<close> (lines 491 to 496): each ID is looked up
  with \<open>find\<close>, which answers \<open>undefined\<close> when no term has the ID, and the entries that
  are \<open>!== null\<close> are kept.
\<close>

definition breadcrumbTerms :: "TechGlossary \<Rightarrow> GlossaryTerm js_ref list" where
  "breadcrumbTerms st =
     filter (\<lambda>term. term \<noteq> Null)
       (map (\<lambda>termId.
               case data st of
                 None \<Rightarrow> Null
               | Some d \<Rightarrow>
                   (case find (\<lambda>t. id' t = termId) (terms d) of
                      None \<Rightarrow> Undefined
                    | Some t \<Rightarrow> Object t))
            (navigationHistory st))"

text \<open>
  The rendering callback (lines 499 to 523): the last entry is the current term, the others
  are links. Reading \<open>term.term\<close> of \<open>undefined\<close> or \<open>null\<close> throws a TypeError.
\<close>

fun renderItems :: "GlossaryTerm js_ref list \<Rightarrow> js_error + crumb list" where
  "renderItems [] = Inr []"
| "renderItems (Object t # rest) =
     (case renderItems rest of
        Inl e \<Rightarrow> Inl e
      | Inr html \<Rightarrow>
          Inr ((if rest = [] then Current (term' t) else Link (id' t) (term' t)) # html))"
| "renderItems (r # rest) = Inl TypeError"

definition renderBreadcrumb :: "TechGlossary \<Rightarrow> TechGlossary completion" where
  "renderBreadcrumb st =
     (if \<not> breadcrumbNav (elements st) \<or> \<not> breadcrumbItems (elements st) then Returns st
      else if length (navigationHistory st) = 0 then Returns (st\<lparr>breadcrumbHidden := True\<rparr>)
      else
        (let st1 = st\<lparr>breadcrumbHidden := False\<rparr> in
         case renderItems (breadcrumbTerms st1) of
           Inl e \<Rightarrow> Throws e st1
         | Inr html \<Rightarrow> Returns (st1\<lparr>breadcrumbHtml := html\<rparr>)))"

definition addToHistory :: "platform \<Rightarrow> string \<Rightarrow> TechGlossary \<Rightarrow> TechGlossary completion" where
  "addToHistory P termId st =
     (if length (navigationHistory st) > 0 \<and> last (navigationHistory st) = termId
      then Returns st
      else renderBreadcrumb
             (saveHistory P (st\<lparr>navigationHistory := navigationHistory st @ [termId]\<rparr>)))"

definition clearHistory :: "platform \<Rightarrow> TechGlossary \<Rightarrow> TechGlossary completion" where
  "clearHistory P st = renderBreadcrumb (saveHistory P (st\<lparr>navigationHistory := []\<rparr>))"

section \<open>Navigation\<close>

definition notFoundWarning :: "string \<Rightarrow> string" where
  "notFoundWarning termId = ''Term with ID '' @ [CHR 0x22] @ termId @ [CHR 0x22] @ '' not found''"

text \<open>
  \<open>navigateToTerm\<close>. The search box, the filter buttons, the cards and the scroll and
  highlight timers are outside the model; none of them throws.
\<close>

definition navigateToTerm ::
    "platform \<Rightarrow> string \<Rightarrow> bool \<Rightarrow> TechGlossary \<Rightarrow> TechGlossary completion" where
  "navigateToTerm P termId fromBreadcrumb st =
     (case data st of
        None \<Rightarrow> Returns st
      | Some d \<Rightarrow>
          (case find (\<lambda>t. id' t = termId) (terms d) of
             None \<Rightarrow> Returns (st\<lparr>console := console st @ [notFoundWarning termId]\<rparr>)
           | Some term \<Rightarrow>
               and_then
                 (if fromBreadcrumb then
                    (let index = indexOf (navigationHistory st) termId in
                     if index \<noteq> -1
                     then Returns (saveHistory P
                            (st\<lparr>navigationHistory := slice0 (navigationHistory st) (index + 1)\<rparr>))
                     else Returns st)
                  else addToHistory P termId st)
                 (\<lambda>st. renderBreadcrumb
                         (filterAndRender P
                            (st\<lparr>searchQuery := '''', currentCategory := ''all''\<rparr>)))))"

section \<open>Sessions\<close>

text \<open>
  The constructor sets the instance fields; the page (storage, console, breadcrumb bar) is
  what it was.
\<close>

definition constructor :: "TechGlossary \<Rightarrow> TechGlossary" where
  "constructor page =
     page\<lparr>data := None, filteredTerms := [], currentCategory := ''all'', searchQuery := '''',
          navigationHistory := [],
          elements := \<lparr>breadcrumbNav = False, breadcrumbItems = False\<rparr>\<rparr>"

definition cacheElements :: "elements \<Rightarrow> TechGlossary \<Rightarrow> TechGlossary" where
  "cacheElements doc st = st\<lparr>elements := doc\<rparr>"

text \<open>
  \<open>init\<close> up to the point where it waits for the dataset: a new instance caches the
  elements of the document and restores the trail.
\<close>

definition init_start :: "platform \<Rightarrow> elements \<Rightarrow> TechGlossary \<Rightarrow> TechGlossary" where
  "init_start P doc page = initializeHistory P (cacheElements doc (constructor page))"

text \<open>
  \<open>init\<close> once \<open>loadData\<close> has stored the dataset \<open>d\<close> (its terms sorted by name): the view
  and the breadcrumb bar are drawn. \<open>init\<close> catches whatever is thrown and shows the
  error panel, so the call itself always returns.
\<close>

definition init_loaded :: "platform \<Rightarrow> GlossaryData \<Rightarrow> TechGlossary \<Rightarrow> TechGlossary" where
  "init_loaded P d st =
     state_of (renderBreadcrumb (filterAndRender P (st\<lparr>data := Some d\<rparr>)))"

text \<open>
  What can happen to a page during a browser session: it is (re)loaded, its dataset
  arrives, the user types in the search box, picks a category, follows a related term
  (\<open>navigateToTerm(id, false)\<close>) or a breadcrumb link (\<open>navigateToTerm(id, true)\<close>), or
  clears the trail; \<open>Append\<close> is a direct call of \<open>addToHistory\<close>. An exception thrown in
  a listener ends that listener only. The session storage outlives a reload; in this
  model so do the console and the bar, until the bar is drawn again.
\<close>

datatype event =
    Load elements
  | Loaded GlossaryData
  | Search string
  | Category string
  | Navigate string bool
  | Append string
  | Clear

fun step :: "platform \<Rightarrow> event \<Rightarrow> TechGlossary \<Rightarrow> TechGlossary" where
  "step P (Load doc) st = init_start P doc st"
| "step P (Loaded d) st = init_loaded P d st"
| "step P (Search v) st = onSearchInput P v st"
| "step P (Category c) st = onCategoryClick P c st"
| "step P (Navigate termId fromBreadcrumb) st = state_of (navigateToTerm P termId fromBreadcrumb st)"
| "step P (Append termId) st = state_of (addToHistory P termId st)"
| "step P Clear st = state_of (clearHistory P st)"

fun run :: "platform \<Rightarrow> event list \<Rightarrow> TechGlossary \<Rightarrow> TechGlossary" where
  "run P [] st = st"
| "run P (e # es) st = run P es (step P e st)"

section \<open>A concrete platform\<close>

text \<open>
  A platform to run the class on. A string is a list of code units, and the model has the
  code units 0 to 255, the Latin-1 part of JavaScript's: there \<open>toLowerCase\<close> maps the
  letters A to Z (0x41 to 0x5A) and the accented capitals 0xC0 to 0xDE, the
  multiplication sign 0xD7 apart, to the code unit 0x20 further on, and leaves every
  other code unit as it is.
\<close>

definition toLowerCase_char :: "char \<Rightarrow> char" where
  "toLowerCase_char c =
     (let n = of_char c :: nat in
      if (0x41 \<le> n \<and> n \<le> 0x5A) \<or> (0xC0 \<le> n \<and> n \<le> 0xDE \<and> n \<noteq> 0xD7)
      then char_of (n + 0x20)
      else c)"

definition toLowerCaseLatin1 :: "string \<Rightarrow> string" where
  "toLowerCaseLatin1 s = map toLowerCase_char s"

text \<open>
  A JSON codec for trails: \<open>stringify\<close> writes \<open>["id1","id2"]\<close> with quotes and backslashes
  escaped, \<open>parse\<close> reads that format back and rejects anything else. The theorems below
  hold for every platform whose codec round-trips (\<open>json_codec\<close>); this one shows that such
  platforms exist.
\<close>

definition dquote :: char where
  "dquote = CHR 0x22"

definition backslash :: char where
  "backslash = CHR 0x5C"

fun escape :: "string \<Rightarrow> string" where
  "escape [] = []"
| "escape (c # cs) =
     (if c = dquote \<or> c = backslash then backslash # c # escape cs else c # escape cs)"

definition quote :: "string \<Rightarrow> string" where
  "quote s = dquote # escape s @ [dquote]"

fun joinComma :: "string list \<Rightarrow> string" where
  "joinComma [] = []"
| "joinComma [s] = s"
| "joinComma (s # t # ts) = s @ CHR '','' # joinComma (t # ts)"

definition stringify :: "string list \<Rightarrow> string" where
  "stringify h = CHR ''['' # joinComma (map quote h) @ '']''"

text \<open>The text after an opening quote: the string up to the closing quote, and the rest.\<close>

fun unquote :: "string \<Rightarrow> (string \<times> string) option" where
  "unquote [] = None"
| "unquote (c # cs) =
     (if c = dquote then Some ([], cs)
      else if c = backslash then
        (case cs of
           [] \<Rightarrow> None
         | d # ds \<Rightarrow>
             if d = dquote \<or> d = backslash
             then map_option (\<lambda>(s, r). (d # s, r)) (unquote ds)
             else None)
      else map_option (\<lambda>(s, r). (c # s, r)) (unquote cs))"

text \<open>The items after \<open>[\<close> or a comma; the first argument bounds the number of items.\<close>

fun parseItems :: "nat \<Rightarrow> string \<Rightarrow> string list option" where
  "parseItems 0 s = None"
| "parseItems (Suc n) s =
     (case s of
        [] \<Rightarrow> None
      | c # r \<Rightarrow>
          if c \<noteq> dquote then None
          else
            (case unquote r of
               None \<Rightarrow> None
             | Some (x, r') \<Rightarrow>
                 if r' = '']'' then Some [x]
                 else
                   (case r' of
                      [] \<Rightarrow> None
                    | c' # r'' \<Rightarrow>
                        if c' = CHR '','' then map_option ((#) x) (parseItems n r'') else None)))"

definition parse :: "string \<Rightarrow> js_error + string list" where
  "parse s =
     (if s = ''[]'' then Inr []
      else
        (case s of
           [] \<Rightarrow> Inl SyntaxError
         | c # r \<Rightarrow>
             if c = CHR ''['' then
               (case parseItems (length s) r of None \<Rightarrow> Inl SyntaxError | Some h \<Rightarrow> Inr h)
             else Inl SyntaxError))"

text \<open>
  A browser whose session storage takes values of up to \<open>n\<close> code units under the key of
  the trail, and rejects longer ones.
\<close>

definition quotaBrowser :: "nat \<Rightarrow> platform" where
  "quotaBrowser n =
     \<lparr>toLowerCase = toLowerCaseLatin1, JSON_stringify = stringify, JSON_parse = parse,
      quotaExceeded = (\<lambda>v. n < length v)\<rparr>"

text \<open>A browser whose session storage never fills up.\<close>

definition browser :: platform where
  "browser =
     \<lparr>toLowerCase = toLowerCaseLatin1, JSON_stringify = stringify, JSON_parse = parse,
      quotaExceeded = (\<lambda>v. False)\<rparr>"

section \<open>Properties that the statements below refer to\<close>

text \<open>
  What is assumed of \<open>JSON.stringify\<close> and \<open>JSON.parse\<close>: the text of a trail is not
  empty, and parsing it gives the trail back.
\<close>

definition json_codec :: "platform \<Rightarrow> bool" where
  "json_codec P =
     (\<forall>h. JSON_stringify P h \<noteq> [] \<and> JSON_parse P (JSON_stringify P h) = Inr h)"

text \<open>What is stored, if anything, is the text of a trail.\<close>

definition wellStored :: "platform \<Rightarrow> TechGlossary \<Rightarrow> bool" where
  "wellStored P st =
     (case sessionStorage st storageKey of
        None \<Rightarrow> True
      | Some stored \<Rightarrow>
          (case JSON_parse P stored of
             Inl e \<Rightarrow> False
           | Inr h \<Rightarrow> stored = JSON_stringify P h))"

text \<open>
  The stored trail is in order: whatever \<open>initializeHistory\<close> would restore from the
  storage has no two equal IDs next to each other.
\<close>

definition storedTrailOk :: "platform \<Rightarrow> TechGlossary \<Rightarrow> bool" where
  "storedTrailOk P st =
     (case sessionStorage st storageKey of
        None \<Rightarrow> True
      | Some stored \<Rightarrow>
          if truthy stored then
            (case JSON_parse P stored of
               Inl e \<Rightarrow> True
             | Inr h \<Rightarrow> distinct_adj h)
          else True)"

text \<open>
  The storage mirrors the trail: nothing is stored and the trail is empty, or the stored
  text is the text of the trail.
\<close>

definition mirrored :: "platform \<Rightarrow> TechGlossary \<Rightarrow> bool" where
  "mirrored P st =
     (case sessionStorage st storageKey of
        None \<Rightarrow> navigationHistory st = []
      | Some stored \<Rightarrow> stored = JSON_stringify P (navigationHistory st))"

text \<open>
  The storage is as far as the quota lets it be: it holds the text of a trail or nothing,
  and it mirrors the trail in memory unless the quota rejects the text of that trail.
\<close>

definition persisted :: "platform \<Rightarrow> TechGlossary \<Rightarrow> bool" where
  "persisted P st =
     (wellStored P st \<and>
      (quotaExceeded P (JSON_stringify P (navigationHistory st)) \<or> mirrored P st))"



text \<open>
  The specification's wording of the breadcrumb display list (\<open>toDisplayList\<close>): the terms
  of the IDs that resolve in the store, in the order of the trail.
\<close>

definition toDisplayList :: "GlossaryData \<Rightarrow> string list \<Rightarrow> GlossaryTerm list" where
  "toDisplayList d h = List.map_filter (\<lambda>termId. find (\<lambda>t. id' t = termId) (terms d)) h"

section \<open>The fixture of the test suite\<close>

text \<open>The four terms of tests/glossary.test.js.\<close>

definition api :: GlossaryTerm where
  "api = \<lparr>id' = ''api'', term' = ''API'',
          fullForm = Some ''Application Programming Interface'',
          definition' = ''A set of protocols for building software applications'',
          category = ''Architecture'',
          relatedTerms = [''REST'', ''GraphQL''],
          examples = [''REST API'', ''GraphQL API'']\<rparr>"

definition ci_cd :: GlossaryTerm where
  "ci_cd = \<lparr>id' = ''ci-cd'', term' = ''CI/CD'',
            fullForm = Some ''Continuous Integration/Continuous Deployment'',
            definition' = ''Automated software development practices'',
            category = ''DevOps'',
            relatedTerms = [''Jenkins'', ''GitHub Actions''],
            examples = [''Automated testing'', ''Automated deployment'']\<rparr>"

definition docker :: GlossaryTerm where
  "docker = \<lparr>id' = ''docker'', term' = ''Docker'',
             fullForm = None,
             definition' = ''A platform for developing, shipping, and running applications in containers'',
             category = ''DevOps'',
             relatedTerms = [''Kubernetes'', ''Container''],
             examples = [''Docker Compose'', ''Dockerfile'']\<rparr>"

definition rest :: GlossaryTerm where
  "rest = \<lparr>id' = ''rest'', term' = ''REST'',
           fullForm = Some ''Representational State Transfer'',
           definition' = ''An architectural style for distributed systems'',
           category = ''Architecture'',
           relatedTerms = [''API'', ''HTTP''],
           examples = [''RESTful API'', ''REST endpoints'']\<rparr>"

definition testData :: GlossaryData where
  "testData = \<lparr>terms = [api, ci_cd, docker, rest],
               categories = [''Architecture'', ''DevOps'', ''Security'']\<rparr>"

text \<open>
  A dataset with a name outside ASCII: \<open>0xC9\<close> is the capital E with acute accent of
  the French word for school.
\<close>

definition ecole :: GlossaryTerm where
  "ecole = \<lparr>id' = ''ecole'', term' = CHR 0xC9 # ''cole'',
            fullForm = None,
            definition' = ''A place of learning'',
            category = ''Education'',
            relatedTerms = [],
            examples = []\<rparr>"

definition frenchData :: GlossaryData where
  "frenchData = \<lparr>terms = [ecole], categories = [''Education'']\<rparr>"

text \<open>A page at the start of a session: nothing stored, nothing logged, no breadcrumbs.\<close>

definition blankPage :: TechGlossary where
  "blankPage = \<lparr>data = None, filteredTerms = [], currentCategory = ''all'', searchQuery = '''',
                navigationHistory = [],
                elements = \<lparr>breadcrumbNav = False, breadcrumbItems = False\<rparr>,
                sessionStorage = Map.empty, console = [],
                breadcrumbHidden = True, breadcrumbHtml = []\<rparr>"

text \<open>
  A page just opened in a session whose storage is \<open>S\<close>: but for the storage it is blank.
\<close>

definition newPage :: "(string \<rightharpoonup> string) \<Rightarrow> TechGlossary" where
  "newPage S = blankPage\<lparr>sessionStorage := S\<rparr>"

text \<open>The document of the page has the breadcrumb bar.\<close>

definition document :: elements where
  "document = \<lparr>breadcrumbNav = True, breadcrumbItems = True\<rparr>"

text \<open>The instance of the test suite: a new object with the fixture as its data.\<close>

definition testGlossary :: TechGlossary where
  "testGlossary = (constructor blankPage)\<lparr>data := Some testData\<rparr>"

text \<open>The loaded page: the instance in a document with the breadcrumb bar.\<close>

definition loadedPage :: TechGlossary where
  "loadedPage = run browser [Load document, Loaded testData] blankPage"

text \<open>
  The loaded page after the four terms were visited in turn, each from the related terms
  of a card.
\<close>

definition visitedPage :: TechGlossary where
  "visitedPage =
     run browser
       [Navigate ''api'' False, Navigate ''ci-cd'' False, Navigate ''docker'' False,
        Navigate ''rest'' False]
       loadedPage"

text \<open>
  A page whose session storage holds the trail \<open>["api","kubernetes"]\<close> of an earlier load
  in the same session, when the dataset still had a term \<open>kubernetes\<close>; the page is then
  loaded again with the fixture, which has no such term.
\<close>

definition stalePage :: TechGlossary where
  "stalePage =
     run browser [Load document, Loaded testData]
       (blankPage\<lparr>sessionStorage := [storageKey \<mapsto> stringify [''api'', ''kubernetes'']]\<rparr>)"

section \<open>Evaluating the built-ins\<close>

text \<open>
  \<open>toLowerCase_char\<close> read on the bits of a code unit: the capitals have bit 6 set and
  bit 5 clear, and setting bit 5 gives the small letter.
\<close>

lemma toLowerCase_char_bits [code]:
  "toLowerCase_char (Char b0 b1 b2 b3 b4 b5 b6 b7) =
     (if b6 \<and> \<not> b5 \<and>
         (if b7 then \<not> (b0 \<and> b1 \<and> b2 \<and> b4)
          else (b0 \<or> b1 \<or> b2 \<or> b3 \<or> b4) \<and> \<not> (b4 \<and> b3 \<and> (b2 \<or> b1 \<and> b0)))
      then Char b0 b1 b2 b3 b4 True b6 b7
      else Char b0 b1 b2 b3 b4 b5 b6 b7)"
  by (cases b0; cases b1; cases b2; cases b3; cases b4; cases b5; cases b6; cases b7)
     (simp_all add: toLowerCase_char_def Let_def char_of_def bit_Suc_0_iff)

text \<open>
  The letters A to Z and the accented capitals are lower-cased; the multiplication sign,
  the sharp s and the characters around the letters are not.
\<close>

lemma toLowerCaseLatin1_table:
  "toLowerCaseLatin1 ''AZ@[az09'' = ''az@[az09'' \<and>
   toLowerCaseLatin1 [CHR 0xC0, CHR 0xC9, CHR 0xD6, CHR 0xD7, CHR 0xD8, CHR 0xDE, CHR 0xDF,
                      CHR 0xBF, CHR 0xE9, CHR 0xFF] =
     [CHR 0xE0, CHR 0xE9, CHR 0xF6, CHR 0xD7, CHR 0xF8, CHR 0xFE, CHR 0xDF,
      CHR 0xBF, CHR 0xE9, CHR 0xFF]"
  by code_simp


section \<open>The concrete platform round-trips\<close>

lemma unquote_escape: "unquote (escape s @ dquote # r) = Some (s, r)"
  by (induction s) (auto simp: dquote_def backslash_def)

lemma parseItems_last: "parseItems (Suc m) (quote x @ '']'') = Some [x]"
  by (simp add: quote_def unquote_escape)

lemma parseItems_more:
  "parseItems (Suc m) (quote x @ CHR '','' # r) = map_option ((#) x) (parseItems m r)"
  by (simp add: quote_def unquote_escape)

lemma parseItems_join:
  "length (x # xs) \<le> n \<Longrightarrow>
   parseItems n (joinComma (map quote (x # xs)) @ '']'') = Some (x # xs)"
proof (induction xs arbitrary: x n)
  case Nil
  then obtain m where "n = Suc m" by (cases n) auto
  then show ?case by (simp add: parseItems_last del: parseItems.simps)
next
  case (Cons y ys)
  then obtain m where n: "n = Suc m" and m: "length (y # ys) \<le> m" by (cases n) auto
  have "parseItems m (joinComma (map quote (y # ys)) @ '']'') = Some (y # ys)"
    using Cons.IH [OF m] .
  then show ?case using n by (simp add: parseItems_more del: parseItems.simps)
qed

lemma length_joinComma: "length xs \<le> length (joinComma (map quote xs))"
  by (induction xs rule: joinComma.induct) (auto simp: quote_def)

lemma parse_stringify: "parse (stringify h) = Inr h"
proof (cases h)
  case Nil
  then show ?thesis by (simp add: parse_def stringify_def)
next
  case (Cons x xs)
  have ne: "stringify h \<noteq> ''[]''"
    using Cons by (cases xs) (auto simp: stringify_def quote_def)
  have "length (x # xs) \<le> length (stringify h)"
    using length_joinComma [of h] Cons by (simp add: stringify_def)
  then have "parseItems (length (stringify h)) (joinComma (map quote (x # xs)) @ '']'')
             = Some (x # xs)"
    by (rule parseItems_join)
  then show ?thesis using ne Cons by (simp add: parse_def stringify_def)
qed

lemma stringify_nonempty: "stringify h \<noteq> []"
  by (simp add: stringify_def)

lemma browser_json_codec: "json_codec browser"
  by (simp add: json_codec_def browser_def parse_stringify stringify_nonempty)

lemma quotaBrowser_json_codec: "json_codec (quotaBrowser n)"
  by (simp add: json_codec_def quotaBrowser_def parse_stringify stringify_nonempty)

section \<open>Filtering: search\<close>






text \<open>
  A name outside ASCII: the term is found for the small and for the capital accented
  letter typed into the search box, and by its name in any case.
\<close>

lemma filterTerms_accented_letter:
  "filteredTerms (onSearchInput browser [CHR 0xE9]
                    ((constructor blankPage)\<lparr>data := Some frenchData\<rparr>)) = [ecole] \<and>
   filteredTerms (onSearchInput browser [CHR 0xC9]
                    ((constructor blankPage)\<lparr>data := Some frenchData\<rparr>)) = [ecole] \<and>
   filteredTerms (onSearchInput browser ''x''
                    ((constructor blankPage)\<lparr>data := Some frenchData\<rparr>)) = [] \<and>
   findTermIdByName browser ((constructor blankPage)\<lparr>data := Some frenchData\<rparr>)
     (CHR 0xE9 # ''COLE'') = Some ''ecole''"
  by code_simp

section \<open>Filtering: category\<close>

text \<open>
  Claim C2. For every dataset \<open>D\<close> and category \<open>c\<close>, \<open>filterTerms\<close> with an empty search
  query returns all of \<open>D.terms\<close> when \<open>c\<close> is \<open>all\<close>, and otherwise exactly the terms whose
  \<open>category\<close> equals \<open>c\<close>; in both cases the result is \<open>D.terms\<close> with some entries left out,
  the others in their order.
\<close>

theorem filterTerms_category:
  assumes "data st = Some D" and "searchQuery st = ''''"
  shows "filterTerms P st =
           (if currentCategory st = ''all'' then terms D
            else filter (\<lambda>t. category t = currentCategory st) (terms D)) \<and>
         subseq (filterTerms P st) (terms D)"
  using assms by (simp add: filterTerms_def truthy_def)

text \<open>The category DevOps on the test instance: CI/CD and Docker, in that order.\<close>

theorem filterTerms_category_witness:
  "data (onCategoryClick browser ''DevOps'' testGlossary) = Some testData \<and>
   searchQuery (onCategoryClick browser ''DevOps'' testGlossary) = '''' \<and>
   filterTerms browser (onCategoryClick browser ''DevOps'' testGlossary) = [ci_cd, docker] \<and>
   subseq (filterTerms browser (onCategoryClick browser ''DevOps'' testGlossary)) (terms testData)"
proof -
  have a: "data (onCategoryClick browser ''DevOps'' testGlossary) = Some testData"
    by code_simp
  have b: "searchQuery (onCategoryClick browser ''DevOps'' testGlossary) = ''''"
    by code_simp
  have c: "currentCategory (onCategoryClick browser ''DevOps'' testGlossary) = ''DevOps''"
    by code_simp
  have d: "filter (\<lambda>t. category t = ''DevOps'') (terms testData) = [ci_cd, docker]"
    by code_simp
  note r = filterTerms_category [OF a b]
  from r c d have e: "filterTerms browser (onCategoryClick browser ''DevOps'' testGlossary) = [ci_cd, docker]"
    by simp
  from r have f: "subseq (filterTerms browser (onCategoryClick browser ''DevOps'' testGlossary)) (terms testData)"
    by (rule conjunct2)
  from a b e f show ?thesis by blast
qed

section \<open>What each method leaves alone\<close>

lemma saveHistory_fields [simp]:
  "navigationHistory (saveHistory P st) = navigationHistory st"
  "data (saveHistory P st) = data st"
  "elements (saveHistory P st) = elements st"
  "searchQuery (saveHistory P st) = searchQuery st"
  "currentCategory (saveHistory P st) = currentCategory st"
  "filteredTerms (saveHistory P st) = filteredTerms st"
  by (simp_all add: saveHistory_def Let_def)

lemma renderBreadcrumb_fields [simp]:
  "navigationHistory (state_of (renderBreadcrumb st)) = navigationHistory st"
  "data (state_of (renderBreadcrumb st)) = data st"
  "elements (state_of (renderBreadcrumb st)) = elements st"
  "searchQuery (state_of (renderBreadcrumb st)) = searchQuery st"
  "currentCategory (state_of (renderBreadcrumb st)) = currentCategory st"
  "filteredTerms (state_of (renderBreadcrumb st)) = filteredTerms st"
  "sessionStorage (state_of (renderBreadcrumb st)) = sessionStorage st"
  "console (state_of (renderBreadcrumb st)) = console st"
  by (simp_all add: renderBreadcrumb_def Let_def split: sum.splits)

lemma filterAndRender_fields [simp]:
  "navigationHistory (filterAndRender P st) = navigationHistory st"
  "data (filterAndRender P st) = data st"
  "elements (filterAndRender P st) = elements st"
  "searchQuery (filterAndRender P st) = searchQuery st"
  "currentCategory (filterAndRender P st) = currentCategory st"
  "filteredTerms (filterAndRender P st) = filterTerms P st"
  "sessionStorage (filterAndRender P st) = sessionStorage st"
  "console (filterAndRender P st) = console st"
  by (simp_all add: filterAndRender_def)

section \<open>Array built-ins\<close>

lemma indexOf_ge: "- 1 \<le> indexOf xs x"
  by (induction xs) (auto simp: Let_def)

lemma indexOf_minus1_iff: "indexOf xs x = - 1 \<longleftrightarrow> x \<notin> set xs"
proof (induction xs)
  case Nil
  then show ?case by simp
next
  case (Cons y ys)
  with indexOf_ge [of ys x] show ?case by (auto simp: Let_def)
qed

lemma slice0_indexOf:
  "x \<in> set xs \<Longrightarrow> slice0 xs (indexOf xs x + 1) = takeWhile (\<lambda>y. y \<noteq> x) xs @ [x]"
proof (induction xs)
  case Nil
  then show ?case by simp
next
  case (Cons y ys)
  show ?case
  proof (cases "y = x")
    case True
    then show ?thesis by (simp add: slice0_def)
  next
    case False
    with Cons.prems have mem: "x \<in> set ys" by simp
    then have ne: "indexOf ys x \<noteq> - 1" by (simp add: indexOf_minus1_iff)
    with indexOf_ge [of ys x] have "0 \<le> indexOf ys x" by linarith
    then have "nat (indexOf ys x + 1 + 1) = Suc (nat (indexOf ys x + 1))" by linarith
    with Cons.IH [OF mem] False ne show ?thesis by (simp add: slice0_def Let_def)
  qed
qed

lemma find_Some_mem: "find p xs = Some x \<Longrightarrow> x \<in> set xs \<and> p x"
  by (induction xs) (auto split: if_splits)

section \<open>Breadcrumbs\<close>

lemma renderItems_Undefined: "Undefined \<in> set rs \<Longrightarrow> renderItems rs = Inl TypeError"
  by (induction rs rule: renderItems.induct) (auto split: sum.splits)

lemma renderItems_Objects: "\<exists>html. renderItems (map Object ts) = Inr html"
  by (induction ts) auto

lemma breadcrumbTerms_loaded:
  "data st = Some D \<Longrightarrow>
   breadcrumbTerms st =
     map (\<lambda>termId. case find (\<lambda>t. id' t = termId) (terms D) of
                      None \<Rightarrow> Undefined | Some t \<Rightarrow> Object t)
         (navigationHistory st)"
  by (simp add: breadcrumbTerms_def filter_id_conv split: option.splits)

lemma breadcrumbTerms_breadcrumbHidden [simp]:
  "breadcrumbTerms (st\<lparr>breadcrumbHidden := b\<rparr>) = breadcrumbTerms st"
  by (simp add: breadcrumbTerms_def)

text \<open>
  As long as every ID of the trail is the ID of a term, the list is the one the
  specification describes, and the bar is drawn.
\<close>

lemma breadcrumbTerms_resolving:
  assumes "data st = Some D"
    and "\<forall>termId \<in> set (navigationHistory st). find (\<lambda>t. id' t = termId) (terms D) \<noteq> None"
  shows "breadcrumbTerms st = map Object (toDisplayList D (navigationHistory st))"
proof -
  have "map (\<lambda>termId. case find (\<lambda>t. id' t = termId) (terms D) of
                      None \<Rightarrow> Undefined | Some t \<Rightarrow> Object t) h
        = map Object (toDisplayList D h)"
    if "\<forall>termId \<in> set h. find (\<lambda>t. id' t = termId) (terms D) \<noteq> None" for h
    using that by (induction h) (auto simp: toDisplayList_def)
  with assms show ?thesis by (simp add: breadcrumbTerms_loaded)
qed

lemma renderBreadcrumb_returns:
  assumes "data st = Some D"
    and "\<forall>termId \<in> set (navigationHistory st). find (\<lambda>t. id' t = termId) (terms D) \<noteq> None"
  shows "returns (renderBreadcrumb st)"
proof -
  obtain html where "renderItems (breadcrumbTerms st) = Inr html"
    using renderItems_Objects breadcrumbTerms_resolving [OF assms] by metis
  then show ?thesis by (simp add: renderBreadcrumb_def)
qed

text \<open>
  One ID of the trail that no term has is enough for \<open>renderBreadcrumb\<close> to throw, when
  the page has the breadcrumb bar.
\<close>

lemma renderBreadcrumb_dangling:
  assumes "data st = Some D" and "breadcrumbNav (elements st)" and "breadcrumbItems (elements st)"
    and "termId \<in> set (navigationHistory st)"
    and "find (\<lambda>t. id' t = termId) (terms D) = None"
  shows "thrown (renderBreadcrumb st) = Some TypeError"
proof -
  have "Undefined \<in> set (breadcrumbTerms st)"
    using assms(4,5) by (force simp: breadcrumbTerms_loaded [OF assms(1)])
  then have "renderItems (breadcrumbTerms st) = Inl TypeError"
    by (rule renderItems_Undefined)
  moreover have "navigationHistory st \<noteq> []"
    using assms(4) by auto
  ultimately show ?thesis
    using assms(2,3) by (simp add: renderBreadcrumb_def)
qed

text \<open>
  Claim C3, at a trail with an ID that no term of the store has. The claim wants the
  breadcrumb list to be the terms of the IDs that resolve, the others left out without a
  sound. In \<open>renderBreadcrumb\<close> the lookup of such an ID gives \<open>undefined\<close>, which the
  filter \<open>term !== null\<close> keeps: the list holds \<open>undefined\<close> after the term of \<open>api\<close>, and
  rendering it throws a TypeError before any entry is drawn. The trail itself is not
  touched.
\<close>

theorem renderBreadcrumb_keeps_undefined:
  "data stalePage = Some testData \<and>
   navigationHistory stalePage = [''api'', ''kubernetes''] \<and>
   find (\<lambda>t. id' t = ''kubernetes'') (terms testData) = None \<and>
   toDisplayList testData (navigationHistory stalePage) = [api] \<and>
   breadcrumbTerms stalePage = [Object api, Undefined] \<and>
   thrown (renderBreadcrumb stalePage) = Some TypeError \<and>
   breadcrumbHtml (state_of (renderBreadcrumb stalePage)) = [] \<and>
   navigationHistory (state_of (renderBreadcrumb stalePage)) = [''api'', ''kubernetes'']"
  by code_simp

text \<open>
  On that page the bar is in the document, the dataset is loaded and the trail is not
  empty, so \<open>renderBreadcrumb\<close> takes none of its early returns and reaches the list.
\<close>

theorem renderBreadcrumb_keeps_undefined_witness:
  "breadcrumbNav (elements stalePage) \<and> breadcrumbItems (elements stalePage) \<and>
   data stalePage = Some testData \<and> navigationHistory stalePage \<noteq> [] \<and>
   Undefined \<in> set (breadcrumbTerms stalePage) \<and>
   \<not> returns (renderBreadcrumb stalePage)"
proof -
  have a: "breadcrumbNav (elements stalePage)"
    by code_simp
  have b: "breadcrumbItems (elements stalePage)"
    by code_simp
  have c: "thrown r = Some TypeError \<Longrightarrow> \<not> returns r" for r :: "TechGlossary completion"
    by (cases r) simp_all
  from renderBreadcrumb_keeps_undefined a b c [of "renderBreadcrumb stalePage"]
  show ?thesis by simp
qed

section \<open>Navigation to a term of the store\<close>

lemma addToHistory_history:
  "navigationHistory (state_of (addToHistory P x st)) =
     (if navigationHistory st \<noteq> [] \<and> last (navigationHistory st) = x
      then navigationHistory st else navigationHistory st @ [x])"
  by (simp add: addToHistory_def)

lemma navigateToTerm_resolved:
  assumes "data st = Some D" and "find (\<lambda>t. id' t = termId) (terms D) = Some t"
  shows "navigateToTerm P termId fromBreadcrumb st =
           and_then
             (if fromBreadcrumb then
                (let index = indexOf (navigationHistory st) termId in
                 if index \<noteq> -1
                 then Returns (saveHistory P
                        (st\<lparr>navigationHistory := slice0 (navigationHistory st) (index + 1)\<rparr>))
                 else Returns st)
              else addToHistory P termId st)
             (\<lambda>st. renderBreadcrumb
                     (filterAndRender P (st\<lparr>searchQuery := '''', currentCategory := ''all''\<rparr>)))"
  using assms by (simp add: navigateToTerm_def)

lemma filterTerms_reset:
  "data st = Some D \<Longrightarrow> searchQuery st = '''' \<Longrightarrow> currentCategory st = ''all'' \<Longrightarrow>
   filterTerms P st = terms D"
  by (simp add: filterTerms_def truthy_def)

text \<open>
  Claim C4. For every trail and every ID of the store navigated to from a breadcrumb
  (\<open>navigateToTerm(id, true)\<close>): if the ID occurs in the trail, the trail becomes its prefix
  up to and including the first occurrence of the ID; if it does not occur, the trail is
  what it was.
\<close>

theorem navigateToTerm_truncates:
  assumes "data st = Some D" and "find (\<lambda>t. id' t = termId) (terms D) = Some t"
  shows "navigationHistory (state_of (navigateToTerm P termId True st)) =
           (if termId \<in> set (navigationHistory st)
            then takeWhile (\<lambda>x. x \<noteq> termId) (navigationHistory st) @ [termId]
            else navigationHistory st)"
  by (simp add: navigateToTerm_resolved [OF assms] Let_def indexOf_minus1_iff slice0_indexOf)

text \<open>
  After the four terms were visited, the breadcrumb of CI/CD cuts the trail behind CI/CD;
  a breadcrumb click on a term that is not on the trail leaves the trail as it is.
\<close>

theorem navigateToTerm_truncates_witness:
  "data visitedPage = Some testData \<and>
   find (\<lambda>t. id' t = ''ci-cd'') (terms testData) = Some ci_cd \<and>
   navigationHistory visitedPage = [''api'', ''ci-cd'', ''docker'', ''rest''] \<and>
   navigationHistory (state_of (navigateToTerm browser ''ci-cd'' True visitedPage)) =
     [''api'', ''ci-cd''] \<and>
   data loadedPage = Some testData \<and>
   navigationHistory (state_of (addToHistory browser ''api'' loadedPage)) = [''api''] \<and>
   navigationHistory
     (state_of (navigateToTerm browser ''ci-cd'' True
        (state_of (addToHistory browser ''api'' loadedPage)))) = [''api'']"
proof -
  have a: "data visitedPage = Some testData"
    by code_simp
  have b: "find (\<lambda>t. id' t = ''ci-cd'') (terms testData) = Some ci_cd"
    by code_simp
  have c: "navigationHistory visitedPage = [''api'', ''ci-cd'', ''docker'', ''rest'']"
    by code_simp
  have d: "data loadedPage = Some testData"
    by code_simp
  have e: "data (state_of (addToHistory browser ''api'' loadedPage)) = Some testData"
    by code_simp
  have f: "navigationHistory (state_of (addToHistory browser ''api'' loadedPage)) = [''api'']"
    by code_simp
  from navigateToTerm_truncates [OF a b, of browser]
    navigateToTerm_truncates [OF e b, of browser] a b c d f
  show ?thesis by simp
qed

text \<open>
  Claim C5. \<open>addToHistory(x)\<close> leaves the trail alone when \<open>x\<close> is its last entry and
  otherwise puts \<open>x\<close> at its end; so after one call the trail ends in \<open>x\<close>, and a second
  call with the same \<open>x\<close> returns at once, with the object as it was: one \<open>x\<close> is added at
  most, and the length after the second call is the length after the first.
\<close>

theorem addToHistory_idempotent:
  "navigationHistory (state_of (addToHistory P x st)) =
     (if navigationHistory st \<noteq> [] \<and> last (navigationHistory st) = x
      then navigationHistory st else navigationHistory st @ [x]) \<and>
   addToHistory P x (state_of (addToHistory P x st)) = Returns (state_of (addToHistory P x st)) \<and>
   navigationHistory (state_of (addToHistory P x st)) \<noteq> [] \<and>
   last (navigationHistory (state_of (addToHistory P x st))) = x \<and>
   length (navigationHistory (state_of (addToHistory P x (state_of (addToHistory P x st))))) =
     length (navigationHistory (state_of (addToHistory P x st)))"
proof -
  let ?st1 = "state_of (addToHistory P x st)"
  have h: "navigationHistory ?st1 =
     (if navigationHistory st \<noteq> [] \<and> last (navigationHistory st) = x
      then navigationHistory st else navigationHistory st @ [x])"
    by (rule addToHistory_history)
  then have ne: "navigationHistory ?st1 \<noteq> []" and l: "last (navigationHistory ?st1) = x"
    by (auto split: if_splits)
  then have again: "addToHistory P x ?st1 = Returns ?st1"
    by (simp add: addToHistory_def [of P x ?st1])
  from h ne l again show ?thesis by simp
qed

text \<open>Visiting API again at the end of the four-term trail, twice in a row.\<close>

theorem addToHistory_idempotent_witness:
  "navigationHistory visitedPage = [''api'', ''ci-cd'', ''docker'', ''rest''] \<and>
   navigationHistory (state_of (addToHistory browser ''api'' visitedPage)) =
     [''api'', ''ci-cd'', ''docker'', ''rest'', ''api''] \<and>
   navigationHistory
     (state_of (addToHistory browser ''api'' (state_of (addToHistory browser ''api'' visitedPage)))) =
     [''api'', ''ci-cd'', ''docker'', ''rest'', ''api'']"
proof -
  have c: "navigationHistory visitedPage = [''api'', ''ci-cd'', ''docker'', ''rest'']"
    by code_simp
  from addToHistory_idempotent [of browser "''api''" visitedPage] c show ?thesis by simp
qed

text \<open>
  Claim C6. For every ID that no term of the loaded store has, \<open>navigateToTerm\<close> returns
  with the object as it was but for one more warning on the console: the trail, the
  session storage, the category and the search query are unchanged, for both values of
  \<open>fromBreadcrumb\<close>.
\<close>

theorem navigateToTerm_miss:
  assumes "data st = Some D" and "find (\<lambda>t. id' t = termId) (terms D) = None"
  shows "navigateToTerm P termId fromBreadcrumb st =
           Returns (st\<lparr>console := console st @ [notFoundWarning termId]\<rparr>) \<and>
         navigationHistory (state_of (navigateToTerm P termId fromBreadcrumb st)) =
           navigationHistory st \<and>
         sessionStorage (state_of (navigateToTerm P termId fromBreadcrumb st)) =
           sessionStorage st \<and>
         currentCategory (state_of (navigateToTerm P termId fromBreadcrumb st)) =
           currentCategory st \<and>
         searchQuery (state_of (navigateToTerm P termId fromBreadcrumb st)) = searchQuery st"
  using assms by (simp add: navigateToTerm_def)

text \<open>The fixture has no term \<open>graphql\<close>.\<close>

theorem navigateToTerm_miss_witness:
  "data visitedPage = Some testData \<and>
   find (\<lambda>t. id' t = ''graphql'') (terms testData) = None \<and>
   navigationHistory (state_of (navigateToTerm browser ''graphql'' False visitedPage)) =
     [''api'', ''ci-cd'', ''docker'', ''rest''] \<and>
   console (state_of (navigateToTerm browser ''graphql'' False visitedPage)) =
     [notFoundWarning ''graphql'']"
proof -
  have a: "data visitedPage = Some testData"
    by code_simp
  have b: "find (\<lambda>t. id' t = ''graphql'') (terms testData) = None"
    by code_simp
  have c: "navigationHistory visitedPage = [''api'', ''ci-cd'', ''docker'', ''rest'']"
    by code_simp
  have d: "console visitedPage = []"
    by code_simp
  from navigateToTerm_miss [OF a b, of browser False] a b c d show ?thesis by simp
qed

text \<open>
  What the reset of \<open>navigateToTerm\<close> achieves when it is reached: after a breadcrumb click
  always, and after a related-term click when \<open>addToHistory\<close> has returned, the search
  query is empty, the category is \<open>all\<close>, the view is the whole list of terms, and the term
  with that ID is in the view; this holds even if the last redraw of the bar throws.
\<close>

lemma navigateToTerm_resets_filters:
  assumes "data st = Some D" and "find (\<lambda>t. id' t = termId) (terms D) = Some t"
    and "fromBreadcrumb \<or> returns (addToHistory P termId st)"
  shows "searchQuery (state_of (navigateToTerm P termId fromBreadcrumb st)) = '''' \<and>
         currentCategory (state_of (navigateToTerm P termId fromBreadcrumb st)) = ''all'' \<and>
         filteredTerms (state_of (navigateToTerm P termId fromBreadcrumb st)) = terms D \<and>
         t \<in> set (filteredTerms (state_of (navigateToTerm P termId fromBreadcrumb st))) \<and>
         id' t = termId"
proof -
  let ?first = "if fromBreadcrumb then
                (let index = indexOf (navigationHistory st) termId in
                 if index \<noteq> -1
                 then Returns (saveHistory P
                        (st\<lparr>navigationHistory := slice0 (navigationHistory st) (index + 1)\<rparr>))
                 else Returns st)
              else addToHistory P termId st"
  let ?rest = "\<lambda>st. renderBreadcrumb
                     (filterAndRender P (st\<lparr>searchQuery := '''', currentCategory := ''all''\<rparr>))"
  have nav: "navigateToTerm P termId fromBreadcrumb st = and_then ?first ?rest"
    by (rule navigateToTerm_resolved [OF assms(1,2)])
  have "returns ?first"
    using assms(3) by (cases fromBreadcrumb) (simp_all add: Let_def)
  then obtain s1 where first: "?first = Returns s1"
    by (cases ?first) auto
  have d1: "data s1 = Some D"
  proof (cases fromBreadcrumb)
    case True
    with first assms(1) show ?thesis by (auto simp: Let_def split: if_splits)
  next
    case False
    with first have "s1 = state_of (addToHistory P termId st)" by simp
    with assms(1) show ?thesis by (simp add: addToHistory_def)
  qed
  let ?s2 = "s1\<lparr>searchQuery := '''', currentCategory := ''all''\<rparr>"
  have st': "state_of (navigateToTerm P termId fromBreadcrumb st) =
             state_of (renderBreadcrumb (filterAndRender P ?s2))"
    using nav first by simp
  have ft: "filterTerms P ?s2 = terms D"
    using d1 by (simp add: filterTerms_reset)
  from find_Some_mem [OF assms(2)] have mem: "t \<in> set (terms D)" and idt: "id' t = termId"
    by simp_all
  from st' ft mem idt show ?thesis by simp
qed

text \<open>
  \<open>addToHistory\<close> and the whole call return whenever every ID of the trail is the ID of a
  term, which holds for every trail that navigation itself has built on an unchanged
  dataset.
\<close>

lemma returns_and_then:
  "returns c \<Longrightarrow> returns (f (state_of c)) \<Longrightarrow> returns (and_then c f)"
  by (cases c) simp_all

lemma navigateToTerm_returns:
  assumes "data st = Some D" and "find (\<lambda>t. id' t = termId) (terms D) = Some t"
    and "\<forall>i \<in> set (navigationHistory st). find (\<lambda>t. id' t = i) (terms D) \<noteq> None"
  shows "returns (navigateToTerm P termId fromBreadcrumb st)"
proof -
  let ?first = "if fromBreadcrumb then
                (let index = indexOf (navigationHistory st) termId in
                 if index \<noteq> -1
                 then Returns (saveHistory P
                        (st\<lparr>navigationHistory := slice0 (navigationHistory st) (index + 1)\<rparr>))
                 else Returns st)
              else addToHistory P termId st"
  let ?rest = "\<lambda>st. renderBreadcrumb
                     (filterAndRender P (st\<lparr>searchQuery := '''', currentCategory := ''all''\<rparr>))"
  have nav: "navigateToTerm P termId fromBreadcrumb st = and_then ?first ?rest"
    by (rule navigateToTerm_resolved [OF assms(1,2)])
  have sub: "set (navigationHistory (state_of ?first)) \<subseteq> insert termId (set (navigationHistory st))"
    by (auto simp: Let_def slice0_def addToHistory_history dest: in_set_takeD)
  have d: "data (state_of ?first) = Some D"
    using assms(1) by (simp add: Let_def addToHistory_def)
  have res: "\<forall>i \<in> set (navigationHistory (state_of ?first)).
              find (\<lambda>t. id' t = i) (terms D) \<noteq> None"
    using sub assms(2,3) by auto
  have r1: "returns ?first"
  proof (cases fromBreadcrumb)
    case True
    then show ?thesis by (simp add: Let_def)
  next
    case False
    let ?s = "saveHistory P (st\<lparr>navigationHistory := navigationHistory st @ [termId]\<rparr>)"
    have "returns (renderBreadcrumb ?s)"
      by (rule renderBreadcrumb_returns [where D = D]) (use assms in auto)
    with False show ?thesis by (simp add: addToHistory_def)
  qed
  have r2: "returns (?rest (state_of ?first))"
    by (rule renderBreadcrumb_returns [where D = D]) (use d res in simp_all)
  from returns_and_then [of ?first ?rest, OF r1 r2] nav show ?thesis by simp
qed

text \<open>
  Claim C7, at a state where it fails. The claim wants a term just navigated to always in
  the view, under any filters in force before. On the page whose restored trail has an ID
  without a term, with the category Architecture and the query \<open>api\<close>, the view is the
  card of API; a click on REST among its related terms calls \<open>navigateToTerm\<close> with the ID
  of a term of the store. \<open>addToHistory\<close> appends the ID, stores the trail and redraws the
  bar, which throws the TypeError of \<open>renderBreadcrumb\<close>: the call ends there, before the
  lines that reset the query and the category. The query and the category stay, the view
  is still the card of API alone, and REST, now the last entry of the trail, is not in it.
\<close>

theorem navigateToTerm_aborts_before_reset:
  "data (onSearchInput browser ''api'' (onCategoryClick browser ''Architecture'' stalePage)) =
     Some testData \<and>
   find (\<lambda>t. id' t = ''rest'') (terms testData) = Some rest \<and>
   filteredTerms (onSearchInput browser ''api''
                    (onCategoryClick browser ''Architecture'' stalePage)) = [api] \<and>
   thrown (navigateToTerm browser ''rest'' False
             (onSearchInput browser ''api''
                (onCategoryClick browser ''Architecture'' stalePage))) = Some TypeError \<and>
   navigationHistory (state_of (navigateToTerm browser ''rest'' False
             (onSearchInput browser ''api''
                (onCategoryClick browser ''Architecture'' stalePage)))) =
     [''api'', ''kubernetes'', ''rest''] \<and>
   searchQuery (state_of (navigateToTerm browser ''rest'' False
             (onSearchInput browser ''api''
                (onCategoryClick browser ''Architecture'' stalePage)))) = ''api'' \<and>
   currentCategory (state_of (navigateToTerm browser ''rest'' False
             (onSearchInput browser ''api''
                (onCategoryClick browser ''Architecture'' stalePage)))) = ''Architecture'' \<and>
   filteredTerms (state_of (navigateToTerm browser ''rest'' False
             (onSearchInput browser ''api''
                (onCategoryClick browser ''Architecture'' stalePage)))) = [api]"
  by code_simp

text \<open>
  On that page the bar is in the document and \<open>rest\<close> is not the last entry of the trail,
  so \<open>addToHistory\<close> appends and redraws; the term REST is not in the view afterwards.
\<close>

theorem navigateToTerm_aborts_before_reset_witness:
  "breadcrumbNav (elements stalePage) \<and> breadcrumbItems (elements stalePage) \<and>
   last (navigationHistory stalePage) \<noteq> ''rest'' \<and>
   \<not> returns (navigateToTerm browser ''rest'' False
                (onSearchInput browser ''api''
                   (onCategoryClick browser ''Architecture'' stalePage))) \<and>
   rest \<notin> set (filteredTerms (state_of (navigateToTerm browser ''rest'' False
                (onSearchInput browser ''api''
                   (onCategoryClick browser ''Architecture'' stalePage)))))"
proof -
  have a: "breadcrumbNav (elements stalePage)"
    by code_simp
  have b: "breadcrumbItems (elements stalePage)"
    by code_simp
  have c: "last (navigationHistory stalePage) \<noteq> ''rest''"
    by code_simp
  have d: "thrown r = Some TypeError \<Longrightarrow> \<not> returns r" for r :: "TechGlossary completion"
    by (cases r) simp_all
  have e: "rest \<notin> set [api]"
    by code_simp
  from navigateToTerm_aborts_before_reset a b c e
    d [of "navigateToTerm browser ''rest'' False
            (onSearchInput browser ''api'' (onCategoryClick browser ''Architecture'' stalePage))"]
  show ?thesis by simp
qed

text \<open>
  Claim C10. While the dataset is not loaded (\<open>data\<close> is \<open>null\<close>), \<open>filterTerms\<close> returns
  the empty list, \<open>findTermIdByName\<close> returns \<open>null\<close> for every name, and \<open>navigateToTerm\<close>
  returns with the object unchanged, for every ID and both values of \<open>fromBreadcrumb\<close>.
\<close>

theorem unloaded_noop:
  assumes "data st = None"
  shows "filterTerms P st = [] \<and> findTermIdByName P st name = None \<and>
         navigateToTerm P termId fromBreadcrumb st = Returns st"
  using assms by (simp add: filterTerms_def findTermIdByName_def navigateToTerm_def)

text \<open>A new object on a blank page.\<close>

theorem unloaded_noop_witness:
  "data blankPage = None \<and> filterTerms browser blankPage = [] \<and>
   findTermIdByName browser blankPage ''API'' = None \<and>
   navigateToTerm browser ''api'' False blankPage = Returns blankPage"
proof -
  have a: "data blankPage = None"
    by (simp add: blankPage_def)
  from unloaded_noop [OF a] a show ?thesis by simp
qed

section \<open>The trail has no two equal neighbours\<close>

lemma distinct_adj_snoc:
  "distinct_adj (xs @ [x]) \<longleftrightarrow> distinct_adj xs \<and> (xs = [] \<or> last xs \<noteq> x)"
  by (simp add: distinct_adj_append_iff)

lemma distinct_adj_take: "distinct_adj xs \<Longrightarrow> distinct_adj (take n xs)"
  using distinct_adj_appendD1 [of "take n xs" "drop n xs"] by simp

lemma and_then_rest_history:
  assumes "\<And>s. navigationHistory (state_of (f s)) = navigationHistory s"
  shows "navigationHistory (state_of (and_then c f)) = navigationHistory (state_of c)"
  using assms by (cases c) simp_all

lemma and_then_rest_storage:
  assumes "\<And>s. sessionStorage (state_of (f s)) = sessionStorage s"
  shows "sessionStorage (state_of (and_then c f)) = sessionStorage (state_of c)"
  using assms by (cases c) simp_all

lemma storedTrailOk_storage:
  "sessionStorage st' = sessionStorage st \<Longrightarrow> storedTrailOk P st' = storedTrailOk P st"
  by (simp add: storedTrailOk_def)

lemma saveHistory_storedTrailOk:
  assumes "json_codec P" and "distinct_adj (navigationHistory st)" and "storedTrailOk P st"
  shows "storedTrailOk P (saveHistory P st)"
proof (cases "quotaExceeded P (JSON_stringify P (navigationHistory st))")
  case True
  then have "sessionStorage (saveHistory P st) = sessionStorage st"
    by (simp add: saveHistory_def)
  with assms(3) show ?thesis by (simp add: storedTrailOk_def)
next
  case False
  then have "sessionStorage (saveHistory P st) storageKey =
             Some (JSON_stringify P (navigationHistory st))"
    by (simp add: saveHistory_def)
  moreover have "JSON_parse P (JSON_stringify P (navigationHistory st)) = Inr (navigationHistory st)"
    using assms(1) by (simp add: json_codec_def)
  ultimately show ?thesis using assms(2) by (simp add: storedTrailOk_def)
qed

text \<open>The first half of a navigation: the change to the trail.\<close>

lemma addToHistory_storage:
  "sessionStorage (state_of (addToHistory P x st)) =
     (if navigationHistory st \<noteq> [] \<and> last (navigationHistory st) = x then sessionStorage st
      else sessionStorage (saveHistory P (st\<lparr>navigationHistory := navigationHistory st @ [x]\<rparr>)))"
  by (simp add: addToHistory_def)

lemma addToHistory_trailOk:
  assumes "json_codec P" and "distinct_adj (navigationHistory st)" and "storedTrailOk P st"
  shows "distinct_adj (navigationHistory (state_of (addToHistory P x st))) \<and>
         storedTrailOk P (state_of (addToHistory P x st))"
proof (cases "navigationHistory st \<noteq> [] \<and> last (navigationHistory st) = x")
  case True
  then have "addToHistory P x st = Returns st" by (simp add: addToHistory_def)
  with assms show ?thesis by simp
next
  case False
  let ?s = "st\<lparr>navigationHistory := navigationHistory st @ [x]\<rparr>"
  have d: "distinct_adj (navigationHistory ?s)"
    using False assms(2) by (auto simp: distinct_adj_snoc)
  have "storedTrailOk P ?s"
    using assms(3) by (simp add: storedTrailOk_def)
  with d have ok: "storedTrailOk P (saveHistory P ?s)"
    by (intro saveHistory_storedTrailOk assms(1))
  have st: "sessionStorage (state_of (addToHistory P x st)) = sessionStorage (saveHistory P ?s)"
    using False by (simp only: addToHistory_storage if_False)
  have h: "navigationHistory (state_of (addToHistory P x st)) = navigationHistory st @ [x]"
    using False by (simp only: addToHistory_history if_False)
  from d h ok storedTrailOk_storage [OF st, of P] show ?thesis by simp
qed

lemma clearHistory_trailOk:
  assumes "json_codec P" and "storedTrailOk P st"
  shows "distinct_adj (navigationHistory (state_of (clearHistory P st))) \<and>
         storedTrailOk P (state_of (clearHistory P st))"
proof -
  let ?s = "st\<lparr>navigationHistory := []\<rparr>"
  have "storedTrailOk P ?s" using assms(2) by (simp add: storedTrailOk_def)
  then have "storedTrailOk P (saveHistory P ?s)"
    by (intro saveHistory_storedTrailOk assms(1)) simp_all
  then have "storedTrailOk P (state_of (clearHistory P st))"
    by (simp add: clearHistory_def storedTrailOk_storage [of "state_of (renderBreadcrumb (saveHistory P ?s))" "saveHistory P ?s"])
  then show ?thesis by (simp add: clearHistory_def)
qed

lemma navigateToTerm_trailOk:
  assumes "json_codec P" and "distinct_adj (navigationHistory st)" and "storedTrailOk P st"
  shows "distinct_adj (navigationHistory (state_of (navigateToTerm P termId fromBreadcrumb st))) \<and>
         storedTrailOk P (state_of (navigateToTerm P termId fromBreadcrumb st))"
proof (cases "data st")
  case None
  with assms show ?thesis by (simp add: navigateToTerm_def)
next
  case (Some D)
  show ?thesis
  proof (cases "find (\<lambda>t. id' t = termId) (terms D)")
    case None
    with Some assms show ?thesis by (simp add: navigateToTerm_def storedTrailOk_def)
  next
    case (Some t)
    let ?first = "if fromBreadcrumb then
                (let index = indexOf (navigationHistory st) termId in
                 if index \<noteq> -1
                 then Returns (saveHistory P
                        (st\<lparr>navigationHistory := slice0 (navigationHistory st) (index + 1)\<rparr>))
                 else Returns st)
              else addToHistory P termId st"
    let ?rest = "\<lambda>st. renderBreadcrumb
                     (filterAndRender P (st\<lparr>searchQuery := '''', currentCategory := ''all''\<rparr>))"
    have nav: "navigateToTerm P termId fromBreadcrumb st = and_then ?first ?rest"
      by (rule navigateToTerm_resolved [OF \<open>data st = Some D\<close> Some])
    have h: "navigationHistory (state_of (and_then ?first ?rest)) =
             navigationHistory (state_of ?first)"
      by (rule and_then_rest_history) simp
    have s: "sessionStorage (state_of (and_then ?first ?rest)) =
             sessionStorage (state_of ?first)"
      by (rule and_then_rest_storage) simp
    have first: "distinct_adj (navigationHistory (state_of ?first)) \<and>
                 storedTrailOk P (state_of ?first)"
    proof (cases fromBreadcrumb)
      case False
      then show ?thesis using addToHistory_trailOk [OF assms] by simp
    next
      case True
      show ?thesis
      proof (cases "indexOf (navigationHistory st) termId = - 1")
        case True
        with \<open>fromBreadcrumb\<close> assms show ?thesis by (simp add: Let_def)
      next
        case False
        let ?s = "st\<lparr>navigationHistory :=
                       slice0 (navigationHistory st) (indexOf (navigationHistory st) termId + 1)\<rparr>"
        have d: "distinct_adj (navigationHistory ?s)"
          using assms(2) by (simp add: slice0_def distinct_adj_take)
        have "storedTrailOk P ?s" using assms(3) by (simp add: storedTrailOk_def)
        with d have "storedTrailOk P (saveHistory P ?s)"
          by (intro saveHistory_storedTrailOk assms(1))
        with d False \<open>fromBreadcrumb\<close> show ?thesis by (simp add: Let_def)
      qed
    qed
    from first h s nav storedTrailOk_storage [OF s, of P] show ?thesis by simp
  qed
qed

lemma initializeHistory_trailOk:
  assumes "distinct_adj (navigationHistory st)" and "storedTrailOk P st"
  shows "distinct_adj (navigationHistory (initializeHistory P st)) \<and>
         storedTrailOk P (initializeHistory P st)"
  using assms
  by (auto simp: initializeHistory_def storedTrailOk_def split: option.splits sum.splits)

lemma step_trailOk:
  assumes "json_codec P" and "distinct_adj (navigationHistory st)" and "storedTrailOk P st"
  shows "distinct_adj (navigationHistory (step P e st)) \<and> storedTrailOk P (step P e st)"
proof (cases e)
  case (Load doc)
  have "storedTrailOk P (cacheElements doc (constructor st))"
    using assms(3) by (simp add: storedTrailOk_def cacheElements_def constructor_def)
  moreover have "distinct_adj (navigationHistory (cacheElements doc (constructor st)))"
    by (simp add: cacheElements_def constructor_def)
  ultimately show ?thesis using Load
    by (simp add: init_start_def initializeHistory_trailOk)
next
  case (Loaded d)
  with assms show ?thesis by (simp add: init_loaded_def storedTrailOk_def)
next
  case (Search v)
  with assms show ?thesis by (simp add: onSearchInput_def storedTrailOk_def)
next
  case (Category c)
  with assms show ?thesis by (simp add: onCategoryClick_def storedTrailOk_def)
next
  case (Navigate termId fromBreadcrumb)
  with navigateToTerm_trailOk [OF assms] show ?thesis by simp
next
  case (Append termId)
  with addToHistory_trailOk [OF assms] show ?thesis by simp
next
  case Clear
  with clearHistory_trailOk [OF assms(1,3)] show ?thesis by simp
qed

text \<open>
  Claim C8. The trail never has the same ID in two neighbouring places. Every operation
  that produces a trail keeps it so: restoring from the session storage at a page load,
  \<open>addToHistory\<close>, the truncation of a breadcrumb click, and \<open>clearHistory\<close>. Stated over
  sessions: from a state whose trail and stored trail have no equal neighbours (a new
  session has neither), whatever happens to the page, the trail and the stored trail have
  none. The same ID may come back further on, as the trail API, REST, API below.
\<close>

theorem trail_never_repeats:
  assumes "json_codec P" and "distinct_adj (navigationHistory st)" and "storedTrailOk P st"
  shows "distinct_adj (navigationHistory (run P evs st)) \<and> storedTrailOk P (run P evs st)"
  using assms(2,3)
proof (induction evs arbitrary: st)
  case Nil
  then show ?case by simp
next
  case (Cons e es)
  from step_trailOk [OF assms(1) Cons.prems] Cons.IH show ?case by simp
qed

text \<open>
  A session: API is opened twice in a row, then REST; the page is loaded again in the same
  session and API is opened once more.
\<close>

theorem trail_never_repeats_witness:
  "json_codec browser \<and> distinct_adj (navigationHistory blankPage) \<and>
   storedTrailOk browser blankPage \<and>
   navigationHistory
     (run browser
        [Load document, Loaded testData, Navigate ''api'' False, Navigate ''api'' False,
         Navigate ''rest'' False, Load document, Loaded testData, Navigate ''api'' False]
        blankPage) = [''api'', ''rest'', ''api''] \<and>
   distinct_adj
     (navigationHistory
        (run browser
           [Load document, Loaded testData, Navigate ''api'' False, Navigate ''api'' False,
            Navigate ''rest'' False, Load document, Loaded testData, Navigate ''api'' False]
           blankPage))"
proof -
  let ?evs = "[Load document, Loaded testData, Navigate ''api'' False, Navigate ''api'' False,
               Navigate ''rest'' False, Load document, Loaded testData, Navigate ''api'' False]"
  have a: "distinct_adj (navigationHistory blankPage)"
    by (simp add: blankPage_def)
  have b: "storedTrailOk browser blankPage"
    by (simp add: storedTrailOk_def blankPage_def)
  have c: "navigationHistory (run browser ?evs blankPage) = [''api'', ''rest'', ''api'']"
    by code_simp
  from trail_never_repeats [OF browser_json_codec a b, of ?evs] browser_json_codec a b c
  show ?thesis by blast
qed


text \<open>
  Restoring copies the stored trail as \<open>JSON.parse\<close> reads it, so the stored trail has to
  be in order for the restored one to be; the class itself only ever stores trails that
  are. Here a text that the class has not written is put into the storage by hand.
\<close>

lemma initializeHistory_copies_stored_trail:
  "navigationHistory
     (init_start browser document
        (blankPage\<lparr>sessionStorage := [storageKey \<mapsto> stringify [''api'', ''api'']]\<rparr>)) =
     [''api'', ''api''] \<and>
   \<not> storedTrailOk browser
        (blankPage\<lparr>sessionStorage := [storageKey \<mapsto> stringify [''api'', ''api'']]\<rparr>)"
  by code_simp

section \<open>The storage mirrors the trail\<close>

lemma persisted_cong:
  "sessionStorage st' = sessionStorage st \<Longrightarrow> navigationHistory st' = navigationHistory st \<Longrightarrow>
   persisted P st' = persisted P st"
  by (simp add: persisted_def wellStored_def mirrored_def split: option.splits)

lemma wellStored_storage:
  "sessionStorage st' = sessionStorage st \<Longrightarrow> wellStored P st' = wellStored P st"
  by (simp add: wellStored_def)

text \<open>After \<open>saveHistory\<close> the storage is as far as the quota lets it be.\<close>

lemma saveHistory_persisted:
  assumes "json_codec P" and "wellStored P st"
  shows "persisted P (saveHistory P st)"
proof (cases "quotaExceeded P (JSON_stringify P (navigationHistory st))")
  case True
  then have "sessionStorage (saveHistory P st) = sessionStorage st"
    by (simp add: saveHistory_def)
  then have "wellStored P (saveHistory P st)"
    using assms(2) by (simp add: wellStored_def)
  with True show ?thesis by (simp add: persisted_def)
next
  case False
  then have s: "sessionStorage (saveHistory P st) storageKey =
                Some (JSON_stringify P (navigationHistory st))"
    by (simp add: saveHistory_def)
  have p: "JSON_parse P (JSON_stringify P (navigationHistory st)) = Inr (navigationHistory st)"
    using assms(1) by (simp add: json_codec_def)
  from s p show ?thesis by (simp add: persisted_def wellStored_def mirrored_def)
qed

lemma renderBreadcrumb_persisted:
  "persisted P (state_of (renderBreadcrumb st)) = persisted P st"
  by (rule persisted_cong) simp_all

lemma addToHistory_persisted:
  assumes "json_codec P" and "persisted P st"
  shows "persisted P (state_of (addToHistory P x st))"
proof (cases "navigationHistory st \<noteq> [] \<and> last (navigationHistory st) = x")
  case True
  then have "addToHistory P x st = Returns st" by (simp add: addToHistory_def)
  with assms(2) show ?thesis by simp
next
  case False
  let ?s = "st\<lparr>navigationHistory := navigationHistory st @ [x]\<rparr>"
  have "wellStored P ?s"
    using assms(2) by (simp add: persisted_def wellStored_def)
  then have p: "persisted P (saveHistory P ?s)"
    by (rule saveHistory_persisted [OF assms(1)])
  have s: "sessionStorage (state_of (addToHistory P x st)) = sessionStorage (saveHistory P ?s)"
    using False by (simp only: addToHistory_storage if_False)
  have "navigationHistory (state_of (addToHistory P x st)) = navigationHistory st @ [x]"
    using False by (simp only: addToHistory_history if_False)
  then have h: "navigationHistory (state_of (addToHistory P x st)) =
                navigationHistory (saveHistory P ?s)"
    by simp
  from p persisted_cong [OF s h, of P] show ?thesis by simp
qed

lemma clearHistory_persisted:
  assumes "json_codec P" and "persisted P st"
  shows "persisted P (state_of (clearHistory P st))"
proof -
  let ?s = "st\<lparr>navigationHistory := []\<rparr>"
  have "wellStored P ?s"
    using assms(2) by (simp add: persisted_def wellStored_def)
  then have "persisted P (saveHistory P ?s)"
    by (rule saveHistory_persisted [OF assms(1)])
  then show ?thesis
    by (simp only: clearHistory_def renderBreadcrumb_persisted)
qed

lemma navigateToTerm_persisted:
  assumes "json_codec P" and "persisted P st"
  shows "persisted P (state_of (navigateToTerm P termId fromBreadcrumb st))"
proof (cases "data st")
  case None
  with assms(2) show ?thesis by (simp add: navigateToTerm_def)
next
  case (Some D)
  show ?thesis
  proof (cases "find (\<lambda>t. id' t = termId) (terms D)")
    case None
    have "persisted P (st\<lparr>console := console st @ [notFoundWarning termId]\<rparr>) = persisted P st"
      by (rule persisted_cong) simp_all
    with None Some assms(2) show ?thesis by (simp add: navigateToTerm_def)
  next
    case (Some t)
    let ?first = "if fromBreadcrumb then
                (let index = indexOf (navigationHistory st) termId in
                 if index \<noteq> -1
                 then Returns (saveHistory P
                        (st\<lparr>navigationHistory := slice0 (navigationHistory st) (index + 1)\<rparr>))
                 else Returns st)
              else addToHistory P termId st"
    let ?rest = "\<lambda>st. renderBreadcrumb
                     (filterAndRender P (st\<lparr>searchQuery := '''', currentCategory := ''all''\<rparr>))"
    have nav: "navigateToTerm P termId fromBreadcrumb st = and_then ?first ?rest"
      by (rule navigateToTerm_resolved [OF \<open>data st = Some D\<close> Some])
    have h: "navigationHistory (state_of (and_then ?first ?rest)) =
             navigationHistory (state_of ?first)"
      by (rule and_then_rest_history) simp
    have s: "sessionStorage (state_of (and_then ?first ?rest)) =
             sessionStorage (state_of ?first)"
      by (rule and_then_rest_storage) simp
    have first: "persisted P (state_of ?first)"
    proof (cases fromBreadcrumb)
      case False
      then show ?thesis using addToHistory_persisted [OF assms] by simp
    next
      case True
      show ?thesis
      proof (cases "indexOf (navigationHistory st) termId = - 1")
        case True
        with \<open>fromBreadcrumb\<close> assms(2) show ?thesis by (simp add: Let_def)
      next
        case False
        let ?s = "st\<lparr>navigationHistory :=
                       slice0 (navigationHistory st) (indexOf (navigationHistory st) termId + 1)\<rparr>"
        have "wellStored P ?s"
          using assms(2) by (simp add: persisted_def wellStored_def)
        then have "persisted P (saveHistory P ?s)"
          by (rule saveHistory_persisted [OF assms(1)])
        with False \<open>fromBreadcrumb\<close> show ?thesis by (simp add: Let_def)
      qed
    qed
    from first nav persisted_cong [OF s h, of P] show ?thesis by simp
  qed
qed

text \<open>
  A page load on a storage that holds the text of a trail, or nothing: the trail restored
  is the one whose text is stored, and the storage is as it was.
\<close>

lemma init_start_mirrored:
  assumes "json_codec P" and "wellStored P st"
  shows "mirrored P (init_start P doc st) \<and>
         sessionStorage (init_start P doc st) = sessionStorage st"
proof (cases "sessionStorage st storageKey")
  case None
  then show ?thesis
    by (simp add: init_start_def initializeHistory_def cacheElements_def constructor_def
                  mirrored_def)
next
  case (Some stored)
  with assms(2) obtain h where p: "JSON_parse P stored = Inr h" and s: "stored = JSON_stringify P h"
    by (auto simp: wellStored_def split: sum.splits)
  from s assms(1) have "truthy stored"
    by (simp add: json_codec_def truthy_def)
  with Some p s show ?thesis
    by (simp add: init_start_def initializeHistory_def cacheElements_def constructor_def
                  mirrored_def)
qed

lemma init_start_persisted:
  assumes "json_codec P" and "persisted P st"
  shows "persisted P (init_start P doc st)"
proof -
  have w: "wellStored P st"
    using assms(2) by (simp add: persisted_def)
  from init_start_mirrored [OF assms(1) w, of doc]
  have m: "mirrored P (init_start P doc st)"
    and s: "sessionStorage (init_start P doc st) = sessionStorage st"
    by simp_all
  from w wellStored_storage [OF s, of P] have "wellStored P (init_start P doc st)"
    by simp
  with m show ?thesis by (simp add: persisted_def)
qed

lemma step_persisted:
  assumes "json_codec P" and "persisted P st"
  shows "persisted P (step P e st)"
proof (cases e)
  case (Load doc)
  with init_start_persisted [OF assms] show ?thesis by simp
next
  case (Loaded d)
  have "persisted P (init_loaded P d st) = persisted P st"
    by (rule persisted_cong) (simp_all add: init_loaded_def)
  with assms(2) Loaded show ?thesis by simp
next
  case (Search v)
  have "persisted P (onSearchInput P v st) = persisted P st"
    by (rule persisted_cong) (simp_all add: onSearchInput_def)
  with assms(2) Search show ?thesis by simp
next
  case (Category c)
  have "persisted P (onCategoryClick P c st) = persisted P st"
    by (rule persisted_cong) (simp_all add: onCategoryClick_def)
  with assms(2) Category show ?thesis by simp
next
  case (Navigate termId fromBreadcrumb)
  with navigateToTerm_persisted [OF assms] show ?thesis by simp
next
  case (Append termId)
  with addToHistory_persisted [OF assms] show ?thesis by simp
next
  case Clear
  with clearHistory_persisted [OF assms] show ?thesis by simp
qed

lemma run_persisted:
  assumes "json_codec P"
  shows "persisted P st \<Longrightarrow> persisted P (run P evs st)"
proof (induction evs arbitrary: st)
  case Nil
  then show ?case by simp
next
  case (Cons e es)
  from step_persisted [OF assms Cons.prems] Cons.IH show ?case by simp
qed

text \<open>
  A page opened on the storage of a state that mirrors its trail restores that trail.
\<close>

lemma restore_on_newPage:
  assumes "json_codec P" and "mirrored P st"
  shows "navigationHistory (init_start P doc (newPage (sessionStorage st))) = navigationHistory st"
proof (cases "sessionStorage st storageKey")
  case None
  with assms(2) have "navigationHistory st = []" by (simp add: mirrored_def)
  with None show ?thesis
    by (simp add: init_start_def initializeHistory_def cacheElements_def constructor_def
                  newPage_def)
next
  case (Some stored)
  with assms(2) have stored: "stored = JSON_stringify P (navigationHistory st)"
    by (simp add: mirrored_def)
  with assms(1) have "truthy stored" and "JSON_parse P stored = Inr (navigationHistory st)"
    by (simp_all add: json_codec_def truthy_def)
  with Some show ?thesis
    by (simp add: init_start_def initializeHistory_def cacheElements_def constructor_def
                  newPage_def)
qed

text \<open>
  Claim C9. Start from an empty trail with nothing stored and let any sequence of events
  happen (navigation, direct appends, truncation, clearing, reloads). If the storage
  takes the text of the trail then in memory, so that the last mutation did write it, the
  storage mirrors that trail, and a page opened afterwards on that storage alone, a new
  object on a blank page, restores exactly that trail. In particular, after
  \<open>addToHistory(a); addToHistory(b)\<close> with \<open>a\<close> and \<open>b\<close> different and room for the text of
  \<open>[a, b]\<close>, it restores \<open>[a, b]\<close>. Earlier writes may have been rejected. This is for a
  platform whose JSON codec round-trips.
\<close>

theorem restore_yields_trail:
  assumes "json_codec P"
    and "navigationHistory st = []" and "sessionStorage st storageKey = None"
  shows "(\<not> quotaExceeded P (JSON_stringify P (navigationHistory (run P evs st))) \<longrightarrow>
            mirrored P (run P evs st) \<and>
            navigationHistory (init_start P doc (newPage (sessionStorage (run P evs st)))) =
              navigationHistory (run P evs st)) \<and>
         (a \<noteq> b \<and> \<not> quotaExceeded P (JSON_stringify P [a, b]) \<longrightarrow>
            navigationHistory
              (init_start P doc (newPage (sessionStorage (run P [Append a, Append b] st)))) =
              [a, b])"
proof -
  have p0: "persisted P st"
    using assms(2,3) by (simp add: persisted_def wellStored_def mirrored_def)
  have r: "navigationHistory (init_start P doc (newPage (sessionStorage (run P es st)))) =
             navigationHistory (run P es st) \<and> mirrored P (run P es st)"
    if "\<not> quotaExceeded P (JSON_stringify P (navigationHistory (run P es st)))" for es
  proof -
    from run_persisted [OF assms(1) p0, of es] that have "mirrored P (run P es st)"
      by (simp add: persisted_def)
    with restore_on_newPage [OF assms(1), of "run P es st" doc] show ?thesis by simp
  qed
  have ab: "navigationHistory (run P [Append a, Append b] st) = [a, b]" if "a \<noteq> b"
    using that assms(2) by (simp add: addToHistory_history)
  have two: "navigationHistory
               (init_start P doc (newPage (sessionStorage (run P [Append a, Append b] st)))) =
             [a, b]"
    if "a \<noteq> b" and "\<not> quotaExceeded P (JSON_stringify P [a, b])"
    using r [of "[Append a, Append b]"] ab [OF that(1)] that(2) by metis
  from r [of evs] two show ?thesis by blast
qed

text \<open>
  A browser that takes at most 16 code units. API and REST are opened and stored. Docker
  is opened next: the text of the three-entry trail is too long and the write is
  rejected. The breadcrumb of REST cuts the trail back to API, REST, which is written. A
  page opened on the storage then restores API, REST.
\<close>

theorem restore_yields_trail_witness:
  "json_codec (quotaBrowser 16) \<and>
   navigationHistory blankPage = [] \<and> sessionStorage blankPage storageKey = None \<and>
   navigationHistory
     (run (quotaBrowser 16)
        [Load document, Loaded testData, Navigate ''api'' False, Navigate ''rest'' False,
         Navigate ''docker'' False, Navigate ''rest'' True] blankPage) = [''api'', ''rest''] \<and>
   \<not> quotaExceeded (quotaBrowser 16) (JSON_stringify (quotaBrowser 16) [''api'', ''rest'']) \<and>
   console
     (run (quotaBrowser 16)
        [Load document, Loaded testData, Navigate ''api'' False, Navigate ''rest'' False,
         Navigate ''docker'' False, Navigate ''rest'' True] blankPage) =
     [''Failed to save navigation history:''] \<and>
   navigationHistory
     (init_start (quotaBrowser 16) document
        (newPage (sessionStorage
           (run (quotaBrowser 16)
              [Load document, Loaded testData, Navigate ''api'' False, Navigate ''rest'' False,
               Navigate ''docker'' False, Navigate ''rest'' True] blankPage)))) =
     [''api'', ''rest'']"
proof -
  let ?evs = "[Load document, Loaded testData, Navigate ''api'' False, Navigate ''rest'' False,
               Navigate ''docker'' False, Navigate ''rest'' True]"
  have a: "navigationHistory blankPage = []"
    by (simp add: blankPage_def)
  have b: "sessionStorage blankPage storageKey = None"
    by (simp add: blankPage_def)
  have c: "navigationHistory (run (quotaBrowser 16) ?evs blankPage) = [''api'', ''rest'']"
    by code_simp
  have d: "\<not> quotaExceeded (quotaBrowser 16)
               (JSON_stringify (quotaBrowser 16) [''api'', ''rest''])"
    by code_simp
  have e: "console (run (quotaBrowser 16) ?evs blankPage) =
           [''Failed to save navigation history:'']"
    by code_simp
  from restore_yields_trail [OF quotaBrowser_json_codec a b, of 16 ?evs document]
    quotaBrowser_json_codec [of 16] a b c d e
  show ?thesis by simp
qed

text \<open>
  Before the cut, when the last write was the rejected one, the storage is behind the
  trail: a page opened on it restores API, REST, not the three entries in memory.
\<close>

lemma restore_after_rejected_write:
  "navigationHistory
     (run (quotaBrowser 16)
        [Load document, Loaded testData, Navigate ''api'' False, Navigate ''rest'' False,
         Navigate ''docker'' False] blankPage) = [''api'', ''rest'', ''docker''] \<and>
   quotaExceeded (quotaBrowser 16)
     (JSON_stringify (quotaBrowser 16) [''api'', ''rest'', ''docker'']) \<and>
   navigationHistory
     (init_start (quotaBrowser 16) document
        (newPage (sessionStorage
           (run (quotaBrowser 16)
              [Load document, Loaded testData, Navigate ''api'' False, Navigate ''rest'' False,
               Navigate ''docker'' False] blankPage)))) = [''api'', ''rest'']"
  by code_simp

end
